theory Spec2Isabelle
  imports Complex_Main
begin

section \<open>The module variant (the file that imports \<^verbatim>\<open>./geometry\<close>)\<close>

text \<open>
  The repository holds two variants of the same program. This section embeds the one
  that delegates its geometry to the module \<^verbatim>\<open>./geometry\<close> (imported as
  \<^verbatim>\<open>gutils\<close>); the next section embeds \<^verbatim>\<open>src/main.ts\<close>, which does its
  clipping itself with the turf library.

  Coordinates are JavaScript numbers. They are modelled as reals: the functions embedded
  here only compare and copy them.
\<close>

subsection \<open>Data\<close>

type_synonym coord = "real \<times> real"
  \<comment> \<open>a two-element array \<^verbatim>\<open>[lat, lng]\<close>\<close>

type_synonym polygon = "coord list"

record Station =
  name :: string
  icon :: string
  lat :: real
  lng :: real

definition createStation :: "string \<Rightarrow> real \<Rightarrow> real \<Rightarrow> string \<Rightarrow> Station" where
  "createStation nm la lo ic = \<lparr>name = nm, icon = ic, lat = la, lng = lo\<rparr>"

record Constraints =
  outer :: polygon
  inner :: "polygon list"

text \<open>
  The module \<^verbatim>\<open>./geometry\<close> is not among the sources. Its functions are taken as
  parameters, one field for each function the program calls. A result the program tests
  for truthiness is an \<open>option\<close> (\<open>None\<close> for \<^verbatim>\<open>null\<close> or \<^verbatim>\<open>undefined\<close>;
  every array, the empty one too, is truthy). \<^verbatim>\<open>gutils.voronoi\<close> is called with the
  outer polygon or with the station list itself as its second argument, hence the sum.
\<close>

record 'b gutils =
  g_voronoi :: "Station list \<Rightarrow> polygon + Station list \<Rightarrow> polygon list \<times> 'b"
  g_polygonIntersection :: "polygon \<Rightarrow> polygon \<Rightarrow> polygon option"
  g_polygonMinus :: "polygon \<Rightarrow> polygon \<Rightarrow> polygon option"
  g_pointInPolygon :: "Station \<Rightarrow> polygon \<Rightarrow> bool"
  g_pointsEqual :: "Station \<Rightarrow> coord \<Rightarrow> bool"
  g_polygonFromBounds :: "'b \<Rightarrow> polygon"

text \<open>
  The globals of the program. \<open>layer_polygons\<close> are the \<^verbatim>\<open>L.Polygon\<close> layers on
  the map, each with its colour and fill flag, and \<open>layer_stations\<close> the markers.
\<close>

record State =
  stations :: "Station list"
  constraints :: Constraints
  voronoiPolygons :: "polygon list"
  boolMarkers :: bool
  boolConstraints :: bool
  layer_polygons :: "(polygon \<times> string \<times> bool) list"
  layer_stations :: "Station list"

subsection \<open>Constraints and obstacles\<close>

text \<open>
  \<^verbatim>\<open>applyConstraintsToPoints\<close>: nothing happens when the outer polygon has no point;
  otherwise the stations are filtered against the outer polygon and then, obstacle by
  obstacle (\<^verbatim>\<open>forEach\<close>), against the inner ones.
\<close>

definition applyConstraintsToPoints :: "'b gutils \<Rightarrow> State \<Rightarrow> State" where
  "applyConstraintsToPoints G s =
     (if length (outer (constraints s)) = 0 then s
      else s\<lparr>stations :=
        foldl (\<lambda>st poly. filter (\<lambda>point. \<not> g_pointInPolygon G point poly) st)
          (filter (\<lambda>point. g_pointInPolygon G point (outer (constraints s))) (stations s))
          (inner (constraints s))\<rparr>)"

text \<open>
  \<^verbatim>\<open>applyConstraintsToVoronoi\<close> updates the array \<^verbatim>\<open>voronoiPolygons\<close> in place,
  index by index. The loops run over the indices \<open>0 ..< length\<close>; the length does not
  change while they run. In the first loop a truthy result replaces the cell only when it
  has at least three points; in the second a truthy result always replaces it.
\<close>

fun clipToOuter :: "'b gutils \<Rightarrow> polygon \<Rightarrow> nat list \<Rightarrow> polygon list \<Rightarrow> polygon list" where
  "clipToOuter G out [] vp = vp"
| "clipToOuter G out (i # is) vp =
     (case g_polygonIntersection G (vp ! i) out of
        None \<Rightarrow> clipToOuter G out is vp
      | Some new_polygon \<Rightarrow>
          if length new_polygon < 3 then clipToOuter G out is vp
          else clipToOuter G out is (vp[i := new_polygon]))"

fun minusObstacles :: "'b gutils \<Rightarrow> polygon list \<Rightarrow> nat \<Rightarrow> nat list \<Rightarrow> polygon list \<Rightarrow> polygon list" where
  "minusObstacles G inn i [] vp = vp"
| "minusObstacles G inn i (j # js) vp =
     minusObstacles G inn i js
       (vp[i := (case g_polygonMinus G (vp ! i) (inn ! j) of
                   Some new_polygon \<Rightarrow> new_polygon
                 | None \<Rightarrow> vp ! i)])"

fun minusAll :: "'b gutils \<Rightarrow> polygon list \<Rightarrow> nat list \<Rightarrow> polygon list \<Rightarrow> polygon list" where
  "minusAll G inn [] vp = vp"
| "minusAll G inn (i # is) vp = minusAll G inn is (minusObstacles G inn i [0 ..< length inn] vp)"

definition applyConstraintsToVoronoi :: "'b gutils \<Rightarrow> State \<Rightarrow> State" where
  "applyConstraintsToVoronoi G s =
     (let vp1 = clipToOuter G (outer (constraints s)) [0 ..< length (voronoiPolygons s)]
                  (voronoiPolygons s);
          vp2 = minusAll G (inner (constraints s)) [0 ..< length vp1] vp1
      in s\<lparr>voronoiPolygons := vp2\<rparr>)"

subsection \<open>Init and update\<close>

text \<open>
  \<^verbatim>\<open>update\<close>: recompute the cells, clear the map, draw the cells, the constraints and
  the bounding polygon, then the markers. An array is always truthy, so the test
  \<^verbatim>\<open>if (constraints.outer)\<close> always passes.
\<close>

definition update :: "'b gutils \<Rightarrow> State \<Rightarrow> State" where
  "update G s =
     (if length (stations s) = 0 then s
      else
        let (s1, bounds) =
              (if boolConstraints s then
                 let sa = applyConstraintsToPoints G s;
                     (vp, b) = g_voronoi G (stations sa) (Inl (outer (constraints sa)))
                 in (applyConstraintsToVoronoi G (sa\<lparr>voronoiPolygons := vp\<rparr>), b)
               else
                 let (vp, b) = g_voronoi G (stations s) (Inr (stations s))
                 in (s\<lparr>voronoiPolygons := vp\<rparr>, b));
            cells = map (\<lambda>p. (p, ''blue'', False)) (voronoiPolygons s1);
            cons = (if boolConstraints s1
                    then (outer (constraints s1), ''red'', False)
                         # map (\<lambda>p. (p, ''red'', True)) (inner (constraints s1))
                    else []);
            box = [(g_polygonFromBounds G bounds, ''green'', False)]
        in s1\<lparr>layer_polygons := cells @ cons @ box,
              layer_stations := (if boolMarkers s1 then stations s1 else [])\<rparr>)"

subsection \<open>Markers\<close>

text \<open>
  \<^verbatim>\<open>Array.prototype.findIndex\<close>: the first index whose element satisfies the test;
  \<open>None\<close> stands for the result \<open>-1\<close>.
\<close>

fun findIndex :: "('a \<Rightarrow> bool) \<Rightarrow> 'a list \<Rightarrow> nat option" where
  "findIndex P [] = None"
| "findIndex P (x # xs) =
     (if P x then Some 0 else map_option Suc (findIndex P xs))"

datatype error = TypeError | LibraryError

text \<open>
  The \<^verbatim>\<open>dragend\<close> handler of a marker: \<open>dragStart\<close> is the position saved by the
  \<^verbatim>\<open>dragstart\<close> handler, \<open>target\<close> the marker's position now. With index \<open>-1\<close> the
  expression \<^verbatim>\<open>stations[index]\<close> is \<^verbatim>\<open>undefined\<close> and the assignment to its
  \<^verbatim>\<open>lat\<close> raises a TypeError, before \<^verbatim>\<open>update\<close> is reached.
\<close>

definition dragend :: "'b gutils \<Rightarrow> coord \<Rightarrow> coord \<Rightarrow> State \<Rightarrow> error + State" where
  "dragend G dragStart target s =
     (case findIndex (\<lambda>p. g_pointsEqual G p dragStart) (stations s) of
        None \<Rightarrow> Inl TypeError
      | Some index \<Rightarrow>
          let st = stations s ! index;
              st' = st\<lparr>lat := fst target, lng := snd target,
                       icon := (if icon st \<noteq> ''red'' then ''orange'' else ''red'')\<rparr>
          in Inr (update G (s\<lparr>stations := (stations s)[index := st']\<rparr>)))"

section \<open>The turf variant (\<^verbatim>\<open>src/main.ts\<close>)\<close>

subsection \<open>Arrays, references and the libraries\<close>

text \<open>
  \<^verbatim>\<open>src/main.ts\<close> changes its polygons in place (\<^verbatim>\<open>push\<close>, \<^verbatim>\<open>reverse\<close>) and
  compares their points with \<^verbatim>\<open>!==\<close>, which on arrays is identity of the object. So a
  polygon is the address of an array in a store, and the elements of the array are
  references to the point objects (the arrays \<^verbatim>\<open>[lat, lng]\<close>): two references are
  equal exactly when they are the same object. (When turf returns a MultiPolygon,
  \<^verbatim>\<open>coordinates[0]\<close> holds rings instead of points; they are references as well.) The
  program never reads a coordinate of a polygon's point itself; only the libraries do.
\<close>

type_synonym ref = nat
type_synonym addr = nat

record Place =
  name_t :: "string option"
  lat_t :: real
  lng_t :: real

text \<open>
  The library turf is not part of the repository; its functions are parameters.
  \<open>'f\<close> is the type of a feature returned by turf, of which the program only reads
  \<^verbatim>\<open>geometry.coordinates[0]\<close> (\<open>t_coordinates0\<close>).
  \<^item> \<open>t_polygon r\<close>: \<^verbatim>\<open>turf.polygon([r])\<close> returns a feature (it throws otherwise).
    The feature holds the array it was given, not a copy, so the \<^verbatim>\<open>reverse\<close> of
    \<^verbatim>\<open>createTurfPolygons\<close> reverses the program's own polygon.
  \<^item> \<open>t_intersect\<close>, \<open>t_difference\<close>: \<open>Inr None\<close> is the result \<^verbatim>\<open>null\<close>,
    \<open>Inl\<close> an exception.
\<close>

record 'f lib =
  t_polygon :: "ref list \<Rightarrow> bool"
  t_booleanClockwise :: "ref list \<Rightarrow> bool"
  t_intersect :: "ref list \<Rightarrow> ref list \<Rightarrow> error + 'f option"
  t_difference :: "ref list \<Rightarrow> 'f \<Rightarrow> error + 'f option"
  t_coordinates0 :: "'f \<Rightarrow> ref list"

text \<open>
  The globals of \<^verbatim>\<open>src/main.ts\<close> and the store of arrays. \<open>fresh\<close> is the first
  address not in use.
\<close>

record State_t =
  arrays :: "addr \<Rightarrow> ref list"
  fresh :: addr
  stations_t :: "Place list"
  outer_t :: addr
  inner_t :: "addr list"
  voronoiPolygons_t :: "addr option list"
  layer_polygons_t :: "(ref list \<times> string \<times> bool) list"

definition new_array :: "ref list \<Rightarrow> State_t \<Rightarrow> addr \<times> State_t" where
  "new_array xs s = (fresh s, s\<lparr>arrays := (arrays s)(fresh s := xs), fresh := Suc (fresh s)\<rparr>)"

subsection \<open>Geometric calculations\<close>

text \<open>
  \<^verbatim>\<open>closePolygons\<close>, for one polygon. In an empty array both \<^verbatim>\<open>polygon[0]\<close> and
  \<^verbatim>\<open>polygon[polygon.length - 1]\<close> are \<^verbatim>\<open>undefined\<close>, so nothing is pushed.
\<close>

definition closeRing :: "ref list \<Rightarrow> ref list" where
  "closeRing polygon =
     (if polygon \<noteq> [] \<and> hd polygon \<noteq> last polygon then polygon @ [hd polygon] else polygon)"

text \<open>
  \<^verbatim>\<open>closePolygons(polygons)\<close>: each polygon in turn, in place. A polygon that is
  \<^verbatim>\<open>undefined\<close> raises a TypeError at \<^verbatim>\<open>polygon[0]\<close>; the polygons before it are
  closed by then.
\<close>

fun closePolygons :: "addr option list \<Rightarrow> State_t \<Rightarrow> error option \<times> State_t" where
  "closePolygons [] s = (None, s)"
| "closePolygons (None # ps) s = (Some TypeError, s)"
| "closePolygons (Some a # ps) s =
     closePolygons ps (s\<lparr>arrays := (arrays s)(a := closeRing (arrays s a))\<rparr>)"

definition orient :: "'f lib \<Rightarrow> addr \<Rightarrow> State_t \<Rightarrow> State_t" where
  "orient T a s =
     (if t_booleanClockwise T (arrays s a) then s
      else s\<lparr>arrays := (arrays s)(a := rev (arrays s a))\<rparr>)"

text \<open>
  \<^verbatim>\<open>createTurfPolygons\<close>: both features are built first, then each ring is reversed in
  place unless turf finds it clockwise. The two features are the two addresses.
\<close>

definition createTurfPolygons :: "'f lib \<Rightarrow> addr \<Rightarrow> addr \<Rightarrow> State_t \<Rightarrow> error option \<times> State_t" where
  "createTurfPolygons T polygon1 polygon2 s =
     (if \<not> t_polygon T (arrays s polygon1) then (Some LibraryError, s)
      else if \<not> t_polygon T (arrays s polygon2) then (Some LibraryError, s)
      else (None, orient T polygon2 (orient T polygon1 s)))"

text \<open>
  \<^verbatim>\<open>removeIntersection\<close>. The result \<open>Inr None\<close> is \<^verbatim>\<open>undefined\<close>. When turf finds
  no intersection the result is the array \<^verbatim>\<open>polygon1\<close> itself. When
  \<^verbatim>\<open>turf.difference\<close> returns \<^verbatim>\<open>null\<close>, reading its \<^verbatim>\<open>geometry\<close> raises a
  TypeError.
\<close>

definition removeIntersection ::
  "'f lib \<Rightarrow> addr option \<Rightarrow> addr option \<Rightarrow> State_t \<Rightarrow> (error + addr option) \<times> State_t" where
  "removeIntersection T polygon1 polygon2 s =
     (case closePolygons [polygon1, polygon2] s of
        (Some e, s1) \<Rightarrow> (Inl e, s1)
      | (None, s1) \<Rightarrow>
          (case (polygon1, polygon2) of
             (Some a1, Some a2) \<Rightarrow>
               if length (arrays s1 a1) < 3 \<or> length (arrays s1 a2) < 3 then (Inr None, s1)
               else
                 (case createTurfPolygons T a1 a2 s1 of
                    (Some e, s2) \<Rightarrow> (Inl e, s2)
                  | (None, s2) \<Rightarrow>
                      (case t_intersect T (arrays s2 a1) (arrays s2 a2) of
                         Inl e \<Rightarrow> (Inl e, s2)
                       | Inr None \<Rightarrow> (Inr (Some a1), s2)
                       | Inr (Some intersection) \<Rightarrow>
                           (case t_difference T (arrays s2 a1) intersection of
                              Inl e \<Rightarrow> (Inl e, s2)
                            | Inr None \<Rightarrow> (Inl TypeError, s2)
                            | Inr (Some d) \<Rightarrow>
                                (let (a, s3) = new_array (t_coordinates0 T d) s2
                                 in (Inr (Some a), s3)))))
           | _ \<Rightarrow> (Inl TypeError, s1)))"

text \<open>
  \<^verbatim>\<open>polygonIntersection\<close>. When turf finds no intersection the result is a new empty
  array.
\<close>

definition polygonIntersection ::
  "'f lib \<Rightarrow> addr option \<Rightarrow> addr option \<Rightarrow> State_t \<Rightarrow> (error + addr option) \<times> State_t" where
  "polygonIntersection T polygon1 polygon2 s =
     (case closePolygons [polygon1, polygon2] s of
        (Some e, s1) \<Rightarrow> (Inl e, s1)
      | (None, s1) \<Rightarrow>
          (case (polygon1, polygon2) of
             (Some a1, Some a2) \<Rightarrow>
               if length (arrays s1 a1) < 3 \<or> length (arrays s1 a2) < 3 then (Inr None, s1)
               else
                 (case createTurfPolygons T a1 a2 s1 of
                    (Some e, s2) \<Rightarrow> (Inl e, s2)
                  | (None, s2) \<Rightarrow>
                      (case t_intersect T (arrays s2 a1) (arrays s2 a2) of
                         Inl e \<Rightarrow> (Inl e, s2)
                       | Inr None \<Rightarrow>
                           (let (a, s3) = new_array [] s2 in (Inr (Some a), s3))
                       | Inr (Some intersection) \<Rightarrow>
                           (let (a, s3) = new_array (t_coordinates0 T intersection) s2
                            in (Inr (Some a), s3))))
           | _ \<Rightarrow> (Inl TypeError, s1)))"

text \<open>
  \<^verbatim>\<open>voronoi\<close>: the positions of the stations go to d3; every polygon d3 returns is
  copied without its \<^verbatim>\<open>null\<close> points into a new array (\<^verbatim>\<open>filter\<close>), and a hole stays
  a hole (\<^verbatim>\<open>map\<close> skips it). The library d3-voronoi is not part of the repository:
  the parameter \<open>d3_polygons\<close> gives, for the positions, the array
  \<^verbatim>\<open>voronoiLayout(positions).polygons()\<close>; \<open>None\<close> in the outer list is a hole of the
  array, \<open>None\<close> in a polygon a \<^verbatim>\<open>null\<close> point.
\<close>

fun newCells :: "ref option list option list \<Rightarrow> State_t \<Rightarrow> addr option list \<times> State_t" where
  "newCells [] s = ([], s)"
| "newCells (None # ps) s = (let (cs, s1) = newCells ps s in (None # cs, s1))"
| "newCells (Some polygon # ps) s =
     (let (a, s1) = new_array (List.map_filter (\<lambda>point. point) polygon) s;
          (cs, s2) = newCells ps s1
      in (Some a # cs, s2))"

definition voronoi :: "(coord list \<Rightarrow> ref option list option list) \<Rightarrow> State_t \<Rightarrow> State_t" where
  "voronoi d3_polygons s =
     (let positions = map (\<lambda>point. (lat_t point, lng_t point)) (stations_t s);
          (cs, s1) = newCells (d3_polygons positions) s
      in s1\<lparr>voronoiPolygons_t := cs\<rparr>)"

text \<open>
  \<^verbatim>\<open>applyConstraints\<close>. The two loops write \<^verbatim>\<open>voronoiPolygons[i]\<close> in place: the new
  polygon when it is truthy (every array is), the old one otherwise. An exception leaves
  the loop with the state reached. The closing \<^verbatim>\<open>filter\<close> drops the holes, the falsy
  entries and the arrays of length 0.
\<close>

definition truthy_or :: "addr option \<Rightarrow> addr option \<Rightarrow> addr option" where
  "truthy_or new_polygon old = (case new_polygon of Some a \<Rightarrow> Some a | None \<Rightarrow> old)"

fun intersectLoop :: "'f lib \<Rightarrow> nat list \<Rightarrow> State_t \<Rightarrow> error option \<times> State_t" where
  "intersectLoop T [] s = (None, s)"
| "intersectLoop T (i # is) s =
     (case polygonIntersection T (voronoiPolygons_t s ! i) (Some (outer_t s)) s of
        (Inl e, s1) \<Rightarrow> (Some e, s1)
      | (Inr new_polygon, s1) \<Rightarrow>
          intersectLoop T is
            (s1\<lparr>voronoiPolygons_t :=
                  (voronoiPolygons_t s1)[i := truthy_or new_polygon (voronoiPolygons_t s1 ! i)]\<rparr>))"

fun removeInner :: "'f lib \<Rightarrow> nat \<Rightarrow> nat list \<Rightarrow> State_t \<Rightarrow> error option \<times> State_t" where
  "removeInner T i [] s = (None, s)"
| "removeInner T i (j # js) s =
     (case removeIntersection T (voronoiPolygons_t s ! i) (Some (inner_t s ! j)) s of
        (Inl e, s1) \<Rightarrow> (Some e, s1)
      | (Inr new_polygon, s1) \<Rightarrow>
          removeInner T i js
            (s1\<lparr>voronoiPolygons_t :=
                  (voronoiPolygons_t s1)[i := truthy_or new_polygon (voronoiPolygons_t s1 ! i)]\<rparr>))"

fun removeLoop :: "'f lib \<Rightarrow> nat list \<Rightarrow> State_t \<Rightarrow> error option \<times> State_t" where
  "removeLoop T [] s = (None, s)"
| "removeLoop T (i # is) s =
     (case removeInner T i [0 ..< length (inner_t s)] s of
        (Some e, s1) \<Rightarrow> (Some e, s1)
      | (None, s1) \<Rightarrow> removeLoop T is s1)"

definition keeps :: "State_t \<Rightarrow> addr option \<Rightarrow> bool" where
  "keeps s polygon = (case polygon of None \<Rightarrow> False | Some a \<Rightarrow> length (arrays s a) > 0)"

definition applyConstraints :: "'f lib \<Rightarrow> State_t \<Rightarrow> error option \<times> State_t" where
  "applyConstraints T s =
     (case intersectLoop T [0 ..< length (voronoiPolygons_t s)] s of
        (Some e, s1) \<Rightarrow> (Some e, s1)
      | (None, s1) \<Rightarrow>
          (case removeLoop T [0 ..< length (voronoiPolygons_t s1)] s1 of
             (Some e, s2) \<Rightarrow> (Some e, s2)
           | (None, s2) \<Rightarrow>
               (None, s2\<lparr>voronoiPolygons_t := filter (keeps s2) (voronoiPolygons_t s2)\<rparr>)))"

subsection \<open>Drawing\<close>

text \<open>
  \<^verbatim>\<open>redraw\<close>: recompute, remove the polygon layers, draw the cells and the constraints.
  The loop over the stations has an empty body (the call of \<^verbatim>\<open>addMarker\<close> is commented
  out, so no marker and none of its handlers exists in this variant). A hole or
  \<^verbatim>\<open>undefined\<close> cannot reach the drawing: the filter of \<^verbatim>\<open>applyConstraints\<close> has
  removed them.
\<close>

definition redraw ::
  "'f lib \<Rightarrow> (coord list \<Rightarrow> ref option list option list) \<Rightarrow> State_t \<Rightarrow> error option \<times> State_t" where
  "redraw T d3_polygons s =
     (case applyConstraints T (voronoi d3_polygons s) of
        (Some e, s1) \<Rightarrow> (Some e, s1)
      | (None, s1) \<Rightarrow>
          (None, s1\<lparr>layer_polygons_t :=
             List.map_filter (\<lambda>polygon. map_option (\<lambda>a. (arrays s1 a, ''blue'', False)) polygon)
               (voronoiPolygons_t s1)
             @ [(arrays s1 (outer_t s1), ''red'', False)]
             @ map (\<lambda>a. (arrays s1 a, ''red'', True)) (inner_t s1)\<rparr>))"

section \<open>Auxiliary notions\<close>

subsection \<open>The loops of the module variant in closed form\<close>

text \<open>
  What \<^verbatim>\<open>applyConstraintsToPoints\<close> leaves of the stations, and what
  \<^verbatim>\<open>applyConstraintsToVoronoi\<close> makes of one cell: the cell clipped to the outer
  polygon, then each obstacle subtracted in turn.
\<close>

definition survivors :: "'b gutils \<Rightarrow> State \<Rightarrow> Station list" where
  "survivors G s =
     (if outer (constraints s) = [] then stations s
      else filter (\<lambda>p. g_pointInPolygon G p (outer (constraints s)) \<and>
                       (\<forall>poly \<in> set (inner (constraints s)). \<not> g_pointInPolygon G p poly))
             (stations s))"

definition clipOne :: "'b gutils \<Rightarrow> polygon \<Rightarrow> polygon \<Rightarrow> polygon" where
  "clipOne G out cell =
     (case g_polygonIntersection G cell out of
        Some n \<Rightarrow> if length n < 3 then cell else n
      | None \<Rightarrow> cell)"

definition minusOne :: "'b gutils \<Rightarrow> polygon \<Rightarrow> polygon \<Rightarrow> polygon" where
  "minusOne G cell obstacle =
     (case g_polygonMinus G cell obstacle of Some n \<Rightarrow> n | None \<Rightarrow> cell)"

definition clipped :: "'b gutils \<Rightarrow> Constraints \<Rightarrow> polygon list \<Rightarrow> polygon list" where
  "clipped G c vp = map (\<lambda>cell. foldl (minusOne G) (clipOne G (outer c) cell) (inner c)) vp"

subsection \<open>The footprint of a clipping operation in the store\<close>

text \<open>
  \<open>touched a1 a2 s s'\<close>: from \<open>s\<close> to \<open>s'\<close> the arrays \<open>a1\<close> and \<open>a2\<close> have at most
  been closed and reversed, every other array is as it was, and nothing was allocated.
\<close>

definition touched :: "addr \<Rightarrow> addr \<Rightarrow> State_t \<Rightarrow> State_t \<Rightarrow> bool" where
  "touched a1 a2 s s' \<longleftrightarrow>
     (arrays s' a1 = closeRing (arrays s a1) \<or> arrays s' a1 = rev (closeRing (arrays s a1))) \<and>
     (arrays s' a2 = closeRing (arrays s a2) \<or> arrays s' a2 = rev (closeRing (arrays s a2))) \<and>
     (\<forall>a. a \<noteq> a1 \<and> a \<noteq> a2 \<longrightarrow> arrays s' a = arrays s a) \<and> fresh s' = fresh s"

subsection \<open>Tolerance equality\<close>

text \<open>
  Modelled from the spec: \<^verbatim>\<open>pointsEqual\<close> of the module \<^verbatim>\<open>./geometry\<close>, which is not
  among the sources. Two points are equal when both coordinate deltas are below
  \<open>epsilon\<close>.
\<close>

definition pointsEqual :: "real \<Rightarrow> coord \<Rightarrow> coord \<Rightarrow> bool" where
  "pointsEqual epsilon a b \<longleftrightarrow> \<bar>fst a - fst b\<bar> < epsilon \<and> \<bar>snd a - snd b\<bar> < epsilon"

section \<open>Concrete instances\<close>

subsection \<open>A geometry of axis-parallel rectangles for the module variant\<close>

text \<open>
  An instance of the parameters in which every polygon stands for its bounding box. It
  is exact on axis-parallel rectangles: a point is inside when it is inside the box; the
  intersection of two boxes is a box, or empty; the difference is the first box when the
  two are apart, empty when the second covers the first, and absent otherwise (the
  result would not be a rectangle). The diagram gives every station the whole bounding
  box, which is the Voronoi diagram of a single station.
\<close>

definition rect :: "real \<Rightarrow> real \<Rightarrow> real \<Rightarrow> real \<Rightarrow> polygon" where
  "rect x0 y0 x1 y1 = [(x0, y0), (x0, y1), (x1, y1), (x1, y0), (x0, y0)]"

definition lows :: "polygon \<Rightarrow> coord" where
  "lows p = (fold min (map fst p) (fst (hd p)), fold min (map snd p) (snd (hd p)))"

definition highs :: "polygon \<Rightarrow> coord" where
  "highs p = (fold max (map fst p) (fst (hd p)), fold max (map snd p) (snd (hd p)))"

definition apart :: "polygon \<Rightarrow> polygon \<Rightarrow> bool" where
  "apart a b \<longleftrightarrow>
     min (fst (highs a)) (fst (highs b)) \<le> max (fst (lows a)) (fst (lows b)) \<or>
     min (snd (highs a)) (snd (highs b)) \<le> max (snd (lows a)) (snd (lows b))"

definition rect_pointInPolygon :: "Station \<Rightarrow> polygon \<Rightarrow> bool" where
  "rect_pointInPolygon point poly \<longleftrightarrow>
     poly \<noteq> [] \<and> fst (lows poly) \<le> lat point \<and> lat point \<le> fst (highs poly) \<and>
     snd (lows poly) \<le> lng point \<and> lng point \<le> snd (highs poly)"

definition rect_polygonIntersection :: "polygon \<Rightarrow> polygon \<Rightarrow> polygon option" where
  "rect_polygonIntersection a b =
     (if length a < 3 \<or> length b < 3 then None
      else if apart a b then Some []
      else Some (rect (max (fst (lows a)) (fst (lows b))) (max (snd (lows a)) (snd (lows b)))
                      (min (fst (highs a)) (fst (highs b))) (min (snd (highs a)) (snd (highs b)))))"

definition rect_polygonMinus :: "polygon \<Rightarrow> polygon \<Rightarrow> polygon option" where
  "rect_polygonMinus a b =
     (if length a < 3 \<or> length b < 3 then None
      else if apart a b then Some a
      else if fst (lows b) \<le> fst (lows a) \<and> snd (lows b) \<le> snd (lows a) \<and>
              fst (highs a) \<le> fst (highs b) \<and> snd (highs a) \<le> snd (highs b) then Some []
      else None)"

definition rect_voronoi :: "Station list \<Rightarrow> polygon + Station list \<Rightarrow> polygon list \<times> (coord \<times> coord)" where
  "rect_voronoi sts extent =
     (let b = (case extent of Inl poly \<Rightarrow> poly | Inr ps \<Rightarrow> map (\<lambda>p. (lat p, lng p)) ps)
      in (map (\<lambda>_. rect (fst (lows b)) (snd (lows b)) (fst (highs b)) (snd (highs b))) sts,
          (lows b, highs b)))"

definition rect_gutils :: "(coord \<times> coord) gutils" where
  "rect_gutils =
     \<lparr>g_voronoi = rect_voronoi,
      g_polygonIntersection = rect_polygonIntersection,
      g_polygonMinus = rect_polygonMinus,
      g_pointInPolygon = rect_pointInPolygon,
      g_pointsEqual = (\<lambda>p q. pointsEqual (1 / 10 ^ 9) (lat p, lng p) q),
      g_polygonFromBounds = (\<lambda>b. rect (fst (fst b)) (snd (fst b)) (fst (snd b)) (snd (snd b)))\<rparr>"

text \<open>
  A region from 0 to 10 with one obstacle from 4 to 6, and three stations: one in the
  free part, one outside the region, one inside the obstacle.
\<close>

definition region :: Constraints where
  "region = \<lparr>outer = rect 0 0 10 10, inner = [rect 4 4 6 6]\<rparr>"

definition town :: State where
  "town =
     \<lparr>stations = [createStation ''A'' 1 1 ''blue'', createStation ''B'' 20 20 ''blue'',
                  createStation ''C'' 5 5 ''blue''],
      constraints = region, voronoiPolygons = [],
      boolMarkers = True, boolConstraints = True, layer_polygons = [], layer_stations = []\<rparr>"


text \<open>
  The town without a station, as the program starts, and as it is left when the last
  station of a town has been removed: \<^verbatim>\<open>update\<close> returned at once and the cell of that
  station is still there.
\<close>

definition empty_town :: State where
  "empty_town = town\<lparr>stations := []\<rparr>"

definition emptied_town :: State where
  "emptied_town =
     town\<lparr>stations := [], voronoiPolygons := [rect 0 0 10 10],
          layer_polygons := [(rect 0 0 10 10, ''blue'', False)]\<rparr>"

text \<open>
  Two stations closer to each other than the tolerance of \<open>rect_gutils\<close>, in a region
  without obstacles.
\<close>

definition twins :: State where
  "twins =
     \<lparr>stations = [createStation ''A'' 1 1 ''blue'',
                  createStation ''B'' 1 (1 + 1 / 10 ^ 10) ''blue''],
      constraints = \<lparr>outer = rect 0 0 10 10, inner = []\<rparr>, voronoiPolygons = [],
      boolMarkers = True, boolConstraints = True, layer_polygons = [], layer_stations = []\<rparr>"

subsection \<open>Scenes for the turf variant\<close>

text \<open>
  An instance of turf for one scene: turf accepts a ring of at least four positions
  whose first and last are the same, finds every ring clockwise (the rings of the stores
  below are), and answers \<open>isect\<close> and \<open>differ\<close> to \<^verbatim>\<open>intersect\<close> and
  \<^verbatim>\<open>difference\<close>; a feature is its outer ring.
\<close>

definition scene :: "ref list option \<Rightarrow> ref list option \<Rightarrow> (ref list) lib" where
  "scene isect differ =
     \<lparr>t_polygon = (\<lambda>r. 4 \<le> length r \<and> hd r = last r),
      t_booleanClockwise = (\<lambda>r. True),
      t_intersect = (\<lambda>r1 r2. Inr isect),
      t_difference = (\<lambda>r f. Inr differ),
      t_coordinates0 = (\<lambda>f. f)\<rparr>"

text \<open>
  The second polygon covers the first, the square from 1 to 2: the intersection is
  that square, which turf returns as a ring of new points (40 to 43) going round the
  other way, and the difference is empty, for which \<^verbatim>\<open>turf.difference\<close> returns
  \<^verbatim>\<open>null\<close>.
\<close>

definition covering :: "(ref list) lib" where
  "covering = scene (Some [40, 41, 42, 43, 40]) None"

text \<open>The two polygons do not meet: \<^verbatim>\<open>turf.intersect\<close> returns \<^verbatim>\<open>null\<close>.\<close>

definition disjoint_scene :: "(ref list) lib" where
  "disjoint_scene = scene None None"

text \<open>
  A store with two open squares at the addresses 2 and 3 (the points 10 to 13 and 20 to
  23) and a two-point array at 4; the first square is the one cell and the second the
  outer polygon; the one station stands in the middle of the cell.
  \<open>closed_squares\<close> is the same store with both squares closed. The coordinates of the
  points are in \<open>position\<close>: the squares are those from 1 to 2 and from 0 to 3.
\<close>

definition squares :: State_t where
  "squares =
     \<lparr>arrays = (\<lambda>a. [])(2 := [10, 11, 12, 13], 3 := [20, 21, 22, 23], 4 := [30, 31]),
      fresh = 5,
      stations_t = [\<lparr>name_t = Some ''A'', lat_t = 3 / 2, lng_t = 3 / 2\<rparr>],
      outer_t = 3, inner_t = [],
      voronoiPolygons_t = [Some 2],
      layer_polygons_t = []\<rparr>"

definition closed_squares :: State_t where
  "closed_squares =
     squares\<lparr>arrays := (arrays squares)(2 := [10, 11, 12, 13, 10], 3 := [20, 21, 22, 23, 20])\<rparr>"

text \<open>
  The same cell with an outer polygon that lies apart from it: the square from 5 to 8
  (the points 50 to 53).
\<close>

definition far_squares :: State_t where
  "far_squares = squares\<lparr>arrays := (arrays squares)(3 := [50, 51, 52, 53])\<rparr>"

definition closed_far_squares :: State_t where
  "closed_far_squares =
     far_squares\<lparr>arrays := (arrays far_squares)(2 := [10, 11, 12, 13, 10],
                                               3 := [50, 51, 52, 53, 50])\<rparr>"

text \<open>
  The cells as \<^verbatim>\<open>voronoi\<close> leaves them for two stations at the same position: d3 has
  no polygon for the first (a hole of the array) and an empty one for the second, here
  at address 2; the outer polygon is the square from 0 to 3.
\<close>

definition coincident :: State_t where
  "coincident =
     \<lparr>arrays = (\<lambda>a. [])(3 := [20, 21, 22, 23]),
      fresh = 4,
      stations_t = [\<lparr>name_t = Some ''A'', lat_t = 1, lng_t = 1\<rparr>,
                    \<lparr>name_t = Some ''B'', lat_t = 1, lng_t = 1\<rparr>],
      outer_t = 3, inner_t = [],
      voronoiPolygons_t = [None, Some 2],
      layer_polygons_t = []\<rparr>"

definition position :: "ref \<Rightarrow> coord" where
  "position r =
     (if r = 10 then (1, 1) else if r = 11 then (1, 2) else if r = 12 then (2, 2)
      else if r = 13 then (2, 1) else if r = 14 then (1, 1 + 1 / 10 ^ 12)
      else if r = 15 then (1, 1)
      else if r = 20 then (0, 0) else if r = 21 then (0, 3) else if r = 22 then (3, 3)
      else if r = 23 then (3, 0)
      else if r = 40 then (1, 1) else if r = 41 then (2, 1) else if r = 42 then (2, 2)
      else if r = 43 then (1, 2)
      else if r = 50 then (5, 5) else if r = 51 then (5, 8) else if r = 52 then (8, 8)
      else if r = 53 then (8, 5) else (0, 0))"

section \<open>Properties\<close>

subsection \<open>Filtering the stations (module variant)\<close>

lemma foldl_filter_all:
  "foldl (\<lambda>st poly. filter (\<lambda>p. \<not> P p poly) st) xs ps =
   filter (\<lambda>p. \<forall>poly \<in> set ps. \<not> P p poly) xs"
  by (induction ps arbitrary: xs) (auto intro: filter_cong)

lemma applyConstraintsToPoints_survivors:
  "applyConstraintsToPoints G s =
     (if outer (constraints s) = [] then s else s\<lparr>stations := survivors G s\<rparr>)"
  by (simp add: applyConstraintsToPoints_def foldl_filter_all survivors_def)

text \<open>
  Claim C5. \<^verbatim>\<open>applyConstraintsToPoints\<close> keeps, in their order, exactly the stations
  that \<^verbatim>\<open>pointInPolygon\<close> finds inside the outer polygon and inside no inner polygon,
  and changes nothing else; when the outer polygon has no point, the whole step is
  skipped and the state is returned as it is.
\<close>

theorem applyConstraintsToPoints_filters:
  "applyConstraintsToPoints G s =
     (if outer (constraints s) = [] then s
      else s\<lparr>stations :=
             filter (\<lambda>point. g_pointInPolygon G point (outer (constraints s)) \<and>
                       (\<forall>polygon \<in> set (inner (constraints s)). \<not> g_pointInPolygon G point polygon))
               (stations s)\<rparr>)"
  by (simp add: applyConstraintsToPoints_def foldl_filter_all)

lemma rect_bounds [simp]:
  "x0 \<le> x1 \<Longrightarrow> y0 \<le> y1 \<Longrightarrow> lows (rect x0 y0 x1 y1) = (x0, y0)"
  "x0 \<le> x1 \<Longrightarrow> y0 \<le> y1 \<Longrightarrow> highs (rect x0 y0 x1 y1) = (x1, y1)"
  by (simp_all add: lows_def highs_def rect_def min_def max_def)

lemma rect_length [simp]: "length (rect x0 y0 x1 y1) = 5" "rect x0 y0 x1 y1 \<noteq> []"
  by (simp_all add: rect_def)

lemma rect_gutils_fields [simp]:
  "g_pointInPolygon rect_gutils = rect_pointInPolygon"
  "g_polygonIntersection rect_gutils = rect_polygonIntersection"
  "g_polygonMinus rect_gutils = rect_polygonMinus"
  "g_voronoi rect_gutils = rect_voronoi"
  "g_pointsEqual rect_gutils = (\<lambda>p q. pointsEqual (1 / 10 ^ 9) (lat p, lng p) q)"
  by (simp_all add: rect_gutils_def)

text \<open>
  In the town, station B lies outside the region and station C inside the obstacle:
  only A is left.
\<close>

theorem applyConstraintsToPoints_filters_witness:
  "outer (constraints town) \<noteq> [] \<and>
   stations (applyConstraintsToPoints rect_gutils town) = [createStation ''A'' 1 1 ''blue'']"
  using applyConstraintsToPoints_filters[of rect_gutils town]
  by (simp add: town_def region_def rect_pointInPolygon_def createStation_def)

subsection \<open>Clipping the cells (module variant)\<close>

lemma clipToOuter_length [simp]: "length (clipToOuter G out is vp) = length vp"
  by (induction "is" arbitrary: vp) (auto split: option.splits)

lemma minusObstacles_length [simp]: "length (minusObstacles G inn i js vp) = length vp"
  by (induction js arbitrary: vp) auto

lemma minusAll_length [simp]: "length (minusAll G inn is vp) = length vp"
  by (induction "is" arbitrary: vp) auto

text \<open>
  Each loop, started at index \<open>k\<close>, leaves the cells before \<open>k\<close> alone and treats every
  cell from \<open>k\<close> on by itself.
\<close>

lemma clipToOuter_upt:
  "k \<le> length vp \<Longrightarrow>
   clipToOuter G out [k ..< length vp] vp = take k vp @ map (clipOne G out) (drop k vp)"
proof (induction "length vp - k" arbitrary: k vp)
  case 0
  then show ?case by simp
next
  case (Suc n)
  then have k: "k < length vp" by simp
  have upt: "[k ..< length vp] = k # [Suc k ..< length vp]"
    using k by (simp add: upt_conv_Cons)
  have d: "drop k vp = vp ! k # drop (Suc k) vp"
    using k by (simp add: Cons_nth_drop_Suc)
  show ?case
  proof (cases "clipOne G out (vp ! k) = vp ! k")
    case True
    have "clipToOuter G out [k ..< length vp] vp = clipToOuter G out [Suc k ..< length vp] vp"
      using True unfolding upt by (auto simp: clipOne_def split: option.splits if_splits)
    also have "\<dots> = take (Suc k) vp @ map (clipOne G out) (drop (Suc k) vp)"
      using Suc(1)[of vp "Suc k"] Suc(2) k by simp
    finally show ?thesis using True d k by (simp add: take_Suc_conv_app_nth)
  next
    case False
    let ?vp = "vp[k := clipOne G out (vp ! k)]"
    have "clipToOuter G out [k ..< length vp] vp = clipToOuter G out [Suc k ..< length ?vp] ?vp"
      using False unfolding upt by (auto simp: clipOne_def split: option.splits if_splits)
    also have "\<dots> = take (Suc k) ?vp @ map (clipOne G out) (drop (Suc k) ?vp)"
      using Suc(1)[of ?vp "Suc k"] Suc(2) k by simp
    finally show ?thesis using d k by (simp add: take_Suc_conv_app_nth)
  qed
qed

lemma minusObstacles_upt:
  "i < length vp \<Longrightarrow> k \<le> length inn \<Longrightarrow>
   minusObstacles G inn i [k ..< length inn] vp =
     vp[i := foldl (minusOne G) (vp ! i) (drop k inn)]"
proof (induction "length inn - k" arbitrary: k vp)
  case 0
  then show ?case by simp
next
  case (Suc n)
  then have k: "k < length inn" by simp
  have upt: "[k ..< length inn] = k # [Suc k ..< length inn]"
    using k by (simp add: upt_conv_Cons)
  have d: "drop k inn = inn ! k # drop (Suc k) inn"
    using k by (simp add: Cons_nth_drop_Suc)
  let ?vp = "vp[i := minusOne G (vp ! i) (inn ! k)]"
  have "minusObstacles G inn i [k ..< length inn] vp =
        minusObstacles G inn i [Suc k ..< length inn] ?vp"
    unfolding upt by (simp add: minusOne_def)
  also have "\<dots> = ?vp[i := foldl (minusOne G) (?vp ! i) (drop (Suc k) inn)]"
    using Suc(1)[of "Suc k" ?vp] Suc(2) Suc(3) k by simp
  finally show ?case using d Suc(3) by simp
qed

lemma minusAll_upt:
  "k \<le> length vp \<Longrightarrow>
   minusAll G inn [k ..< length vp] vp =
     take k vp @ map (\<lambda>c. foldl (minusOne G) c inn) (drop k vp)"
proof (induction "length vp - k" arbitrary: k vp)
  case 0
  then show ?case by simp
next
  case (Suc n)
  then have k: "k < length vp" by simp
  have upt: "[k ..< length vp] = k # [Suc k ..< length vp]"
    using k by (simp add: upt_conv_Cons)
  have d: "drop k vp = vp ! k # drop (Suc k) vp"
    using k by (simp add: Cons_nth_drop_Suc)
  let ?vp = "vp[k := foldl (minusOne G) (vp ! k) inn]"
  have "minusAll G inn [k ..< length vp] vp = minusAll G inn [Suc k ..< length ?vp] ?vp"
    unfolding upt using minusObstacles_upt[of k vp 0 inn G] k by simp
  also have "\<dots> = take (Suc k) ?vp @ map (\<lambda>c. foldl (minusOne G) c inn) (drop (Suc k) ?vp)"
    using Suc(1)[of ?vp "Suc k"] Suc(2) k by simp
  finally show ?case using d k by (simp add: take_Suc_conv_app_nth)
qed

lemma applyConstraintsToVoronoi_clipped:
  "applyConstraintsToVoronoi G s =
     s\<lparr>voronoiPolygons := clipped G (constraints s) (voronoiPolygons s)\<rparr>"
  using clipToOuter_upt[of 0 "voronoiPolygons s" G "outer (constraints s)"]
    minusAll_upt[of 0 "clipToOuter G (outer (constraints s)) [0 ..< length (voronoiPolygons s)]
      (voronoiPolygons s)" G "inner (constraints s)"]
  by (simp add: applyConstraintsToVoronoi_def Let_def clipped_def comp_def)

subsection \<open>Recomputing twice (module variant)\<close>

lemma update_empty: "stations s = [] \<Longrightarrow> update G s = s"
  by (simp add: update_def)

lemma update_free:
  assumes "stations s \<noteq> []" "\<not> boolConstraints s"
  shows "update G s =
     s\<lparr>voronoiPolygons := fst (g_voronoi G (stations s) (Inr (stations s))),
       layer_polygons :=
         map (\<lambda>p. (p, ''blue'', False)) (fst (g_voronoi G (stations s) (Inr (stations s))))
         @ [(g_polygonFromBounds G (snd (g_voronoi G (stations s) (Inr (stations s)))),
             ''green'', False)],
       layer_stations := (if boolMarkers s then stations s else [])\<rparr>"
  using assms by (simp add: update_def Let_def case_prod_beta)

lemma update_constrained:
  assumes "stations s \<noteq> []" "boolConstraints s"
  shows "update G s =
     s\<lparr>stations := survivors G s,
       voronoiPolygons :=
         clipped G (constraints s)
           (fst (g_voronoi G (survivors G s) (Inl (outer (constraints s))))),
       layer_polygons :=
         map (\<lambda>p. (p, ''blue'', False))
           (clipped G (constraints s)
              (fst (g_voronoi G (survivors G s) (Inl (outer (constraints s))))))
         @ (outer (constraints s), ''red'', False)
           # map (\<lambda>p. (p, ''red'', True)) (inner (constraints s))
         @ [(g_polygonFromBounds G
               (snd (g_voronoi G (survivors G s) (Inl (outer (constraints s))))),
             ''green'', False)],
       layer_stations := (if boolMarkers s then survivors G s else [])\<rparr>"
  using assms
  by (simp add: update_def Let_def case_prod_beta applyConstraintsToPoints_survivors
      applyConstraintsToVoronoi_clipped survivors_def)

lemma survivors_again:
  "constraints s' = constraints s \<Longrightarrow> stations s' = survivors G s \<Longrightarrow>
   survivors G s' = survivors G s"
  by (simp add: survivors_def)

lemma update_free_twice:
  assumes "stations s \<noteq> []" "\<not> boolConstraints s"
  shows "update G (update G s) = update G s"
proof -
  let ?u = "update G s"
  have 1: "stations ?u = stations s" "boolConstraints ?u = boolConstraints s"
    "boolMarkers ?u = boolMarkers s"
    using assms by (simp_all add: update_free)
  have "update G ?u = ?u"
    using assms 1 by (simp add: update_free[of ?u G]) (simp add: update_free)
  then show ?thesis .
qed

lemma update_constrained_twice:
  assumes "stations s \<noteq> []" "boolConstraints s"
  shows "update G (update G s) = update G s"
proof -
  let ?u = "update G s"
  have 1: "stations ?u = survivors G s" "boolConstraints ?u" "boolMarkers ?u = boolMarkers s"
    "constraints ?u = constraints s"
    using assms by (simp_all add: update_constrained)
  show ?thesis
  proof (cases "survivors G s = []")
    case True
    then show ?thesis using 1 by (simp add: update_empty)
  next
    case False
    have 2: "survivors G ?u = survivors G s" using 1 by (simp add: survivors_again)
    have "update G ?u = ?u"
      using False 1 2
      by (simp add: update_constrained[of ?u G]) (simp add: update_constrained[OF assms])
    then show ?thesis .
  qed
qed

lemma update_twice: "update G (update G s) = update G s"
  using update_empty[of s G] update_free_twice[of s G] update_constrained_twice[of s G]
  by (cases "stations s = []"; cases "boolConstraints s") simp_all

lemma update_same_inputs:
  assumes "stations s \<noteq> []" "stations s' = stations s" "constraints s' = constraints s"
    "boolConstraints s' = boolConstraints s" "boolMarkers s' = boolMarkers s"
  shows "update G s' = update G s"
proof (cases "boolConstraints s")
  case True
  have "survivors G s' = survivors G s" using assms by (simp add: survivors_def)
  then show ?thesis
    using assms True by (simp add: update_constrained[of s G] update_constrained[of s' G])
next
  case False
  then show ?thesis using assms by (simp add: update_free[of s G] update_free[of s' G])
qed

lemma new_array_cells:
  "new_array xs (s\<lparr>voronoiPolygons_t := v\<rparr>) =
     (fst (new_array xs s), (snd (new_array xs s))\<lparr>voronoiPolygons_t := v\<rparr>)"
  by (simp add: new_array_def)

lemma newCells_cells:
  "newCells ps (s\<lparr>voronoiPolygons_t := v\<rparr>) =
     (fst (newCells ps s), (snd (newCells ps s))\<lparr>voronoiPolygons_t := v\<rparr>)"
proof (induction ps arbitrary: s)
  case Nil
  then show ?case by simp
next
  case (Cons p ps)
  show ?case
  proof (cases p)
    case None
    then show ?thesis using Cons.IH[of s] by (simp add: case_prod_beta)
  next
    case (Some polygon)
    then show ?thesis
      using Cons.IH[of "snd (new_array (List.map_filter (\<lambda>point. point) polygon) s)"]
      by (simp add: case_prod_beta new_array_cells)
  qed
qed

lemma voronoi_overwrites:
  "voronoi d3_polygons (s\<lparr>voronoiPolygons_t := v\<rparr>) = voronoi d3_polygons s"
  by (simp add: voronoi_def newCells_cells case_prod_beta Let_def)

text \<open>
  Claim C7, as amended. The functions of \<^verbatim>\<open>./geometry\<close>, of d3 and of turf are taken as
  functions of their arguments. Running \<^verbatim>\<open>update\<close> a second time changes nothing,
  whatever the stations. With at least one station the result of \<^verbatim>\<open>update\<close> is
  determined by the stations, the constraints and the two flags: two runs with the
  same of these give the same cells in the same order, whatever was there before.
  With no station \<^verbatim>\<open>update\<close> returns at once and leaves the cells and layers that
  were there. \<^verbatim>\<open>redraw\<close> of \<^verbatim>\<open>src/main.ts\<close> has no such exit: its result never
  depends on the cells that were there before.
\<close>

theorem recompute_deterministic:
  "update G (update G s) = update G s \<and>
   (stations s \<noteq> [] \<and> stations s' = stations s \<and> constraints s' = constraints s \<and>
    boolConstraints s' = boolConstraints s \<and> boolMarkers s' = boolMarkers s \<longrightarrow>
      update G s' = update G s) \<and>
   (stations s = [] \<longrightarrow> update G s = s) \<and>
   redraw T d3_polygons (u\<lparr>voronoiPolygons_t := v\<rparr>) = redraw T d3_polygons u"
  using update_twice[of G s] update_same_inputs[of s s' G] update_empty[of s G]
  by (simp add: redraw_def voronoi_overwrites)

text \<open>
  The town with a stale cell gives the same result as the town without, and the town
  without a station stays as it is.
\<close>

theorem recompute_deterministic_witness:
  "stations town \<noteq> [] \<and>
   update rect_gutils (town\<lparr>voronoiPolygons := [rect 0 0 1 1]\<rparr>) = update rect_gutils town \<and>
   update rect_gutils emptied_town = emptied_town"
  using recompute_deterministic[where G = rect_gutils and s = town
      and s' = "town\<lparr>voronoiPolygons := [rect 0 0 1 1]\<rparr>" and T = covering
      and d3_polygons = "\<lambda>positions. []" and u = squares and v = "[]"]
    recompute_deterministic[where G = rect_gutils and s = emptied_town and s' = emptied_town
      and T = covering and d3_polygons = "\<lambda>positions. []" and u = squares and v = "[]"]
  by (simp add: town_def emptied_town_def)

text \<open>
  Claim C7 as stated fails for the empty facility list: \<open>empty_town\<close> and
  \<open>emptied_town\<close> have the same stations (none), the same constraints and the same
  flags, and \<^verbatim>\<open>update\<close> leaves the first without a cell and the second with one.
\<close>

theorem update_keeps_stale_cells:
  "stations empty_town = stations emptied_town \<and>
   constraints empty_town = constraints emptied_town \<and>
   boolConstraints empty_town = boolConstraints emptied_town \<and>
   boolMarkers empty_town = boolMarkers emptied_town \<and>
   voronoiPolygons (update rect_gutils empty_town) = [] \<and>
   voronoiPolygons (update rect_gutils emptied_town) = [rect 0 0 10 10]"
  by (simp add: update_empty empty_town_def emptied_town_def town_def)

subsection \<open>Closing a polygon (turf variant)\<close>

lemma closeRing_again [simp]: "closeRing (closeRing P) = closeRing P"
  by (auto simp: closeRing_def)

lemma closePolygons_single:
  "closePolygons [Some a] s = (None, s\<lparr>arrays := (arrays s)(a := closeRing (arrays s a))\<rparr>)"
  by simp

lemma closePolygons_pair:
  "closePolygons [Some a1, Some a2] s =
     (None, s\<lparr>arrays := (arrays s)(a1 := closeRing (arrays s a1),
               a2 := closeRing (if a2 = a1 then closeRing (arrays s a1) else arrays s a2))\<rparr>)"
  by simp

lemma squares_facts [simp]:
  "length (arrays closed_squares 2) = 5" "length (arrays closed_squares 3) = 5"
  "arrays closed_squares 2 = [10, 11, 12, 13, 10]" "fresh squares = 5" "fresh closed_squares = 5"
  "arrays squares 2 = [10, 11, 12, 13]" "arrays squares 4 = [30, 31]"
  "voronoiPolygons_t squares = [Some 2]" "outer_t squares = 3" "inner_t squares = []"
  "voronoiPolygons_t closed_squares = [Some 2]" "outer_t closed_squares = 3"
  "inner_t closed_squares = []"
  by (simp_all add: closed_squares_def squares_def)

text \<open>
  Claim C4, as amended. Closing a polygon in place appends its first point whenever
  the polygon is not empty and the coordinates of its last point differ from those of
  its first (any difference, there is no tolerance); it changes nothing at all when the
  polygon is empty or its last element is its first point itself; it touches no other
  array; and closing a second time changes nothing, so the operation is idempotent.
  \<open>co\<close> gives the coordinates of every point.
\<close>

theorem closePolygons_idempotent:
  fixes co :: "ref \<Rightarrow> coord"
  assumes "s1 = snd (closePolygons [Some a] s)"
  shows "closePolygons [Some a] s1 = (None, s1) \<and>
         (arrays s a \<noteq> [] \<and> co (last (arrays s a)) \<noteq> co (hd (arrays s a)) \<longrightarrow>
            arrays s1 a = arrays s a @ [hd (arrays s a)]) \<and>
         (arrays s a = [] \<or> last (arrays s a) = hd (arrays s a) \<longrightarrow> s1 = s) \<and>
         (\<forall>b. b \<noteq> a \<longrightarrow> arrays s1 b = arrays s b)"
proof -
  have s1: "s1 = s\<lparr>arrays := (arrays s)(a := closeRing (arrays s a))\<rparr>"
    using assms by (simp only: closePolygons_single snd_conv)
  have again: "closePolygons [Some a] s1 = (None, s1)"
    unfolding closePolygons_single s1 by simp
  have grow: "arrays s a \<noteq> [] \<and> co (last (arrays s a)) \<noteq> co (hd (arrays s a)) \<longrightarrow>
      arrays s1 a = arrays s a @ [hd (arrays s a)]"
    unfolding s1 by (auto simp: closeRing_def)
  have "closeRing (arrays s a) = arrays s a"
    if "arrays s a = [] \<or> last (arrays s a) = hd (arrays s a)"
    using that by (auto simp: closeRing_def)
  then have same: "arrays s a = [] \<or> last (arrays s a) = hd (arrays s a) \<longrightarrow> s1 = s"
    unfolding s1 by simp
  have rest: "\<forall>b. b \<noteq> a \<longrightarrow> arrays s1 b = arrays s b"
    unfolding s1 by simp
  show ?thesis using again grow same rest by blast
qed

text \<open>The open square at address 2 gets its first point appended, once.\<close>

theorem closePolygons_idempotent_witness:
  "arrays (snd (closePolygons [Some 2] squares)) 2 = [10, 11, 12, 13, 10] \<and>
   closePolygons [Some 2] (snd (closePolygons [Some 2] squares)) =
     (None, snd (closePolygons [Some 2] squares))"
proof -
  have "position (last (arrays squares 2)) \<noteq> position (hd (arrays squares 2))"
    by (simp add: position_def)
  then show ?thesis
    using closePolygons_idempotent[of "snd (closePolygons [Some 2] squares)" 2 squares position]
    by (simp del: closePolygons.simps)
qed

text \<open>
  Claim C4 as stated fails: the comparison has no tolerance. The last point 14 of the
  first ring is within a billionth of the first point 10 in both coordinates, and the
  last point 15 of the second ring has the very coordinates of point 10 in another
  object; in both rings the first point is appended all the same.
\<close>

theorem closePolygons_appends_within_tolerance:
  "pointsEqual (1 / 10 ^ 9) (position 14) (position 10) \<and>
   arrays (snd (closePolygons [Some 2]
             (squares\<lparr>arrays := (arrays squares)(2 := [10, 11, 12, 14])\<rparr>))) 2
     = [10, 11, 12, 14, 10] \<and>
   position 15 = position 10 \<and>
   arrays (snd (closePolygons [Some 2]
             (squares\<lparr>arrays := (arrays squares)(2 := [10, 11, 12, 15])\<rparr>))) 2
     = [10, 11, 12, 15, 10]"
  by (simp add: pointsEqual_def position_def closeRing_def)


subsection \<open>The footprint of the clipping operations (turf variant)\<close>

lemma fresh_closePolygons [simp]: "fresh (snd (closePolygons ps s)) = fresh s"
  by (induction ps s rule: closePolygons.induct) simp_all

lemma fresh_orient [simp]: "fresh (orient T a s) = fresh s"
  by (simp add: orient_def)

lemma arrays_orient:
  "arrays (orient T a s) b =
     (if b = a \<and> \<not> t_booleanClockwise T (arrays s a) then rev (arrays s a) else arrays s b)"
  by (simp add: orient_def)

lemma touched_close:
  "closePolygons [Some a1, Some a2] s = (e, s1) \<Longrightarrow> touched a1 a2 s s1 \<and> e = None"
  by (auto simp: closePolygons_pair touched_def)

lemma touched_turf:
  assumes "touched a1 a2 s s1" "createTurfPolygons T a1 a2 s1 = (e, s2)"
  shows "touched a1 a2 s s2"
proof (cases "t_polygon T (arrays s1 a1) \<and> t_polygon T (arrays s1 a2)")
  case False
  then have "s2 = s1" using assms(2) by (auto simp: createTurfPolygons_def split: if_splits)
  then show ?thesis using assms(1) by simp
next
  case True
  then have s2: "s2 = orient T a2 (orient T a1 s1)"
    using assms(2) by (auto simp: createTurfPolygons_def)
  show ?thesis
  proof (cases "a1 = a2")
    case True
    then show ?thesis using assms(1) unfolding s2 touched_def
      by (auto simp: arrays_orient)
  next
    case False
    then show ?thesis using assms(1) unfolding s2 touched_def
      by (auto simp: arrays_orient)
  qed
qed

lemma touched_new_array:
  assumes "touched a1 a2 s s2" "a1 < fresh s" "a2 < fresh s"
  shows "(arrays (snd (new_array xs s2)) a1 = closeRing (arrays s a1) \<or>
          arrays (snd (new_array xs s2)) a1 = rev (closeRing (arrays s a1))) \<and>
         (arrays (snd (new_array xs s2)) a2 = closeRing (arrays s a2) \<or>
          arrays (snd (new_array xs s2)) a2 = rev (closeRing (arrays s a2))) \<and>
         (\<forall>a. a < fresh s \<and> a \<noteq> a1 \<and> a \<noteq> a2 \<longrightarrow>
              arrays (snd (new_array xs s2)) a = arrays s a)"
  using assms by (auto simp: touched_def new_array_def)

lemma touched_old:
  assumes "touched a1 a2 s s2"
  shows "(arrays s2 a1 = closeRing (arrays s a1) \<or> arrays s2 a1 = rev (closeRing (arrays s a1))) \<and>
         (arrays s2 a2 = closeRing (arrays s a2) \<or> arrays s2 a2 = rev (closeRing (arrays s a2))) \<and>
         (\<forall>a. a < fresh s \<and> a \<noteq> a1 \<and> a \<noteq> a2 \<longrightarrow> arrays s2 a = arrays s a)"
  using assms by (simp add: touched_def)

lemma polygonIntersection_footprint:
  assumes "a1 < fresh s" "a2 < fresh s"
    and "s' = snd (polygonIntersection T (Some a1) (Some a2) s)"
  shows "(arrays s' a1 = closeRing (arrays s a1) \<or> arrays s' a1 = rev (closeRing (arrays s a1))) \<and>
         (arrays s' a2 = closeRing (arrays s a2) \<or> arrays s' a2 = rev (closeRing (arrays s a2))) \<and>
         (\<forall>a. a < fresh s \<and> a \<noteq> a1 \<and> a \<noteq> a2 \<longrightarrow> arrays s' a = arrays s a)"
proof -
  obtain e s1 where c: "closePolygons [Some a1, Some a2] s = (e, s1)"
    by (cases "closePolygons [Some a1, Some a2] s")
  from touched_close[OF c] have t1: "touched a1 a2 s s1" and e: "e = None" by simp_all
  obtain e2 s2 where t: "createTurfPolygons T a1 a2 s1 = (e2, s2)"
    by (cases "createTurfPolygons T a1 a2 s1")
  note t2 = touched_turf[OF t1 t]
  show ?thesis
    unfolding assms(3)
    using c e t touched_old[OF t1] touched_old[OF t2] touched_new_array[OF t2 assms(1,2)]
    by (simp add: polygonIntersection_def case_prod_beta split: option.splits sum.splits)
qed

lemma removeIntersection_footprint:
  assumes "a1 < fresh s" "a2 < fresh s"
    and "s' = snd (removeIntersection T (Some a1) (Some a2) s)"
  shows "(arrays s' a1 = closeRing (arrays s a1) \<or> arrays s' a1 = rev (closeRing (arrays s a1))) \<and>
         (arrays s' a2 = closeRing (arrays s a2) \<or> arrays s' a2 = rev (closeRing (arrays s a2))) \<and>
         (\<forall>a. a < fresh s \<and> a \<noteq> a1 \<and> a \<noteq> a2 \<longrightarrow> arrays s' a = arrays s a)"
proof -
  obtain e s1 where c: "closePolygons [Some a1, Some a2] s = (e, s1)"
    by (cases "closePolygons [Some a1, Some a2] s")
  from touched_close[OF c] have t1: "touched a1 a2 s s1" and e: "e = None" by simp_all
  obtain e2 s2 where t: "createTurfPolygons T a1 a2 s1 = (e2, s2)"
    by (cases "createTurfPolygons T a1 a2 s1")
  note t2 = touched_turf[OF t1 t]
  show ?thesis
    unfolding assms(3)
    using c e t touched_old[OF t1] touched_old[OF t2] touched_new_array[OF t2 assms(1,2)]
    by (simp add: removeIntersection_def case_prod_beta split: option.splits sum.splits)
qed

lemma polygonIntersection_fresh:
  assumes "fst (polygonIntersection T (Some a1) (Some a2) s) = Inr (Some a)"
  shows "a = fresh s"
proof -
  obtain e s1 where c: "closePolygons [Some a1, Some a2] s = (e, s1)"
    by (cases "closePolygons [Some a1, Some a2] s")
  from touched_close[OF c] have t1: "touched a1 a2 s s1" and e: "e = None" by simp_all
  obtain e2 s2 where t: "createTurfPolygons T a1 a2 s1 = (e2, s2)"
    by (cases "createTurfPolygons T a1 a2 s1")
  have "fresh s2 = fresh s" using touched_turf[OF t1 t] by (simp add: touched_def)
  then show ?thesis
    using assms c e t
    by (auto simp: polygonIntersection_def new_array_def split: option.splits sum.splits if_splits)
qed

lemma squares_closed:
  "closePolygons [Some 2, Some 3] squares = (None, closed_squares)"
  by (simp add: squares_def closeRing_def closed_squares_def)

lemma squares_turf: "createTurfPolygons covering 2 3 closed_squares = (None, closed_squares)"
  by (simp add: createTurfPolygons_def orient_def covering_def scene_def closed_squares_def
      squares_def)

lemma covering_answers [simp]:
  "t_intersect covering r1 r2 = Inr (Some [40, 41, 42, 43, 40])"
  "t_difference covering r f = Inr None" "t_coordinates0 covering f = f"
  "t_polygon covering r \<longleftrightarrow> 4 \<le> length r \<and> hd r = last r"
  by (simp_all add: covering_def scene_def)

lemma disjoint_answers [simp]:
  "t_intersect disjoint_scene r1 r2 = Inr None" "t_difference disjoint_scene r f = Inr None"
  "t_coordinates0 disjoint_scene f = f"
  by (simp_all add: disjoint_scene_def scene_def)

lemma squares_turf_disjoint:
  "createTurfPolygons disjoint_scene 2 3 closed_squares = (None, closed_squares)"
  by (simp add: createTurfPolygons_def orient_def disjoint_scene_def scene_def closed_squares_def
      squares_def)

lemma polygonIntersection_squares:
  "polygonIntersection covering (Some 2) (Some 3) squares =
     (Inr (Some 5),
      closed_squares\<lparr>arrays := (arrays closed_squares)(5 := [40, 41, 42, 43, 40]), fresh := 6\<rparr>)"
  by (simp only: polygonIntersection_def squares_closed)
     (simp add: squares_turf new_array_def)

text \<open>
  Claim C3, as amended. \<^verbatim>\<open>polygonIntersection\<close> and \<^verbatim>\<open>removeIntersection\<close> do
  change their operands, in place, but only so: after the call each operand is its
  former self closed (first point appended when the last element is not the first), or
  that reversed; every other array of the store is as it was. An array that
  \<^verbatim>\<open>polygonIntersection\<close> returns is newly allocated, none that existed before.
\<close>

theorem clipping_footprint:
  assumes "a1 < fresh s" "a2 < fresh s"
      and "s' = snd (polygonIntersection T (Some a1) (Some a2) s) \<or>
           s' = snd (removeIntersection T (Some a1) (Some a2) s)"
  shows "(arrays s' a1 = closeRing (arrays s a1) \<or> arrays s' a1 = rev (closeRing (arrays s a1))) \<and>
         (arrays s' a2 = closeRing (arrays s a2) \<or> arrays s' a2 = rev (closeRing (arrays s a2))) \<and>
         (\<forall>a. a < fresh s \<and> a \<noteq> a1 \<and> a \<noteq> a2 \<longrightarrow> arrays s' a = arrays s a) \<and>
         (\<forall>a. fst (polygonIntersection T (Some a1) (Some a2) s) = Inr (Some a) \<longrightarrow> a = fresh s)"
  using polygonIntersection_footprint[OF assms(1,2), of s' T]
    removeIntersection_footprint[OF assms(1,2), of s' T]
    assms(3) polygonIntersection_fresh[of T a1 a2 s]
  by blast

text \<open>
  Intersecting the two squares closes the first one; the two-point array at 4 is not
  touched.
\<close>

theorem clipping_footprint_witness:
  "arrays (snd (polygonIntersection covering (Some 2) (Some 3) squares)) 2 = [10, 11, 12, 13, 10] \<and>
   arrays (snd (polygonIntersection covering (Some 2) (Some 3) squares)) 4 = [30, 31]"
proof -
  have 1: "(2::nat) < fresh squares" "(3::nat) < fresh squares" by simp_all
  show ?thesis
    using clipping_footprint[OF 1,
        of "snd (polygonIntersection covering (Some 2) (Some 3) squares)" covering]
    by (simp add: polygonIntersection_squares)
qed

text \<open>
  Claim C3 as stated fails: the first operand has four points before the call and five
  after it.
\<close>

theorem polygonIntersection_closes_operand:
  "arrays squares 2 = [10, 11, 12, 13] \<and>
   arrays (snd (polygonIntersection covering (Some 2) (Some 3) squares)) 2 = [10, 11, 12, 13, 10]"
  by (simp add: polygonIntersection_squares)

subsection \<open>The results of the clipping operations (turf variant)\<close>

text \<open>
  Claim C6. A polygon of two points \<open>p\<close> and \<open>q\<close> has three entries once it is
  closed, so it passes the test for fewer than three: \<^verbatim>\<open>polygonIntersection\<close> hands the
  ring \<open>p, q, p\<close> to \<^verbatim>\<open>turf.polygon\<close>, which does not accept a ring of fewer than four
  positions, and ends in the exception that turf raises instead of returning
  \<^verbatim>\<open>undefined\<close> or an empty array.
\<close>

theorem polygonIntersection_two_points:
  assumes "arrays s a1 = [p, q]" "p \<noteq> q" "a1 \<noteq> a2"
      and "3 \<le> length (closeRing (arrays s a2))"
      and "\<not> t_polygon T [p, q, p]"
  shows "polygonIntersection T (Some a1) (Some a2) s =
           (Inl LibraryError,
            s\<lparr>arrays := (arrays s)(a1 := [p, q, p], a2 := closeRing (arrays s a2))\<rparr>)"
proof -
  have c: "closeRing (arrays s a1) = [p, q, p]"
    using assms(1,2) by (simp add: closeRing_def)
  have "closePolygons [Some a1, Some a2] s =
          (None, s\<lparr>arrays := (arrays s)(a1 := [p, q, p], a2 := closeRing (arrays s a2))\<rparr>)"
    using c assms(3) by (simp add: closePolygons_pair)
  then show ?thesis
    using assms(3,4,5)
    by (simp only: polygonIntersection_def) (simp add: createTurfPolygons_def)
qed

text \<open>
  With the squares, the two-point array at address 4 against the outer square: turf
  does not accept the ring 30, 31, 30.
\<close>

theorem polygonIntersection_two_points_witness:
  "fst (polygonIntersection covering (Some 4) (Some 3) squares) = Inl LibraryError"
proof -
  have 1: "arrays squares 4 = [30, 31]" "(30::nat) \<noteq> 31" "(4::nat) \<noteq> 3" by simp_all
  have 2: "3 \<le> length (closeRing (arrays squares 3))"
    by (simp add: squares_def closeRing_def)
  have 3: "\<not> t_polygon covering [30, 31, 30]" by simp
  show ?thesis
    using polygonIntersection_two_points[OF 1 2 3] by simp
qed

text \<open>
  Claim C2. What \<^verbatim>\<open>removeIntersection\<close> does for two polygons of at least three
  points after closing, once turf has accepted and oriented the rings (\<open>s2\<close>): when
  turf finds no intersection, the result is the first polygon itself; when the
  difference that turf computes is a feature, the result is a new array with its outer
  ring; and when \<^verbatim>\<open>turf.difference\<close> returns \<^verbatim>\<open>null\<close>, which is its answer for an
  empty difference, the function raises a TypeError instead of returning.
\<close>

theorem removeIntersection_cases:
  assumes "closePolygons [Some a1, Some a2] s = (None, s1)"
      and "3 \<le> length (arrays s1 a1)" "3 \<le> length (arrays s1 a2)"
      and "createTurfPolygons T a1 a2 s1 = (None, s2)"
  shows "(t_intersect T (arrays s2 a1) (arrays s2 a2) = Inr None \<longrightarrow>
            removeIntersection T (Some a1) (Some a2) s = (Inr (Some a1), s2)) \<and>
         (\<forall>f. t_intersect T (arrays s2 a1) (arrays s2 a2) = Inr (Some f) \<longrightarrow>
            (\<forall>d. t_difference T (arrays s2 a1) f = Inr (Some d) \<longrightarrow>
               fst (removeIntersection T (Some a1) (Some a2) s) = Inr (Some (fresh s)) \<and>
               arrays (snd (removeIntersection T (Some a1) (Some a2) s)) (fresh s) =
                 t_coordinates0 T d) \<and>
            (t_difference T (arrays s2 a1) f = Inr None \<longrightarrow>
               removeIntersection T (Some a1) (Some a2) s = (Inl TypeError, s2)))"
proof -
  have f1: "fresh s1 = fresh s"
    using fresh_closePolygons[of "[Some a1, Some a2]" s] assms(1)
    by (simp del: closePolygons.simps)
  have f2: "fresh s2 = fresh s"
    using f1 assms(4) by (auto simp: createTurfPolygons_def split: if_splits)
  show ?thesis
    using assms f2
    by (auto simp: removeIntersection_def new_array_def)
qed

text \<open>
  With the squares: when the second covers the first, the difference is empty and the
  call ends in a TypeError; when turf finds no intersection, the result is the first
  polygon itself, closed.
\<close>

theorem removeIntersection_cases_witness:
  "removeIntersection covering (Some 2) (Some 3) squares = (Inl TypeError, closed_squares) \<and>
   removeIntersection disjoint_scene (Some 2) (Some 3) squares = (Inr (Some 2), closed_squares)"
  using removeIntersection_cases[OF squares_closed _ _ squares_turf]
    removeIntersection_cases[OF squares_closed _ _ squares_turf_disjoint]
  by simp

subsection \<open>The cells after \<^verbatim>\<open>applyConstraints\<close> (turf variant)\<close>

text \<open>
  Claim C10. When \<^verbatim>\<open>applyConstraints\<close> returns, every entry of
  \<^verbatim>\<open>voronoiPolygons\<close> is an array, not \<^verbatim>\<open>null\<close> or \<^verbatim>\<open>undefined\<close>, and has at least
  one element.
\<close>

theorem applyConstraints_no_empty_cells:
  assumes "applyConstraints T s = (None, s')"
  shows "\<forall>polygon \<in> set (voronoiPolygons_t s'). \<exists>a. polygon = Some a \<and> arrays s' a \<noteq> []"
proof -
  obtain e1 s1 where 1: "intersectLoop T [0 ..< length (voronoiPolygons_t s)] s = (e1, s1)"
    by (cases "intersectLoop T [0 ..< length (voronoiPolygons_t s)] s")
  obtain e2 s2 where 2: "removeLoop T [0 ..< length (voronoiPolygons_t s1)] s1 = (e2, s2)"
    by (cases "removeLoop T [0 ..< length (voronoiPolygons_t s1)] s1")
  have "s' = s2\<lparr>voronoiPolygons_t := filter (keeps s2) (voronoiPolygons_t s2)\<rparr>"
    using assms 1 2 by (cases e1; cases e2) (simp_all add: applyConstraints_def)
  then show ?thesis
    by (auto simp: keeps_def split: option.splits)
qed

lemma applyConstraints_squares:
  "applyConstraints covering squares =
     (None, closed_squares\<lparr>arrays := (arrays closed_squares)(5 := [40, 41, 42, 43, 40]),
                           fresh := 6, voronoiPolygons_t := [Some 5]\<rparr>)"
  by (simp add: applyConstraints_def polygonIntersection_squares truthy_or_def keeps_def)

text \<open>
  With the squares the one cell is replaced by the new array at 5, which has five
  points, and stays.
\<close>

theorem applyConstraints_no_empty_cells_witness:
  "list_all (\<lambda>polygon. \<exists>a. polygon = Some a \<and>
                arrays (snd (applyConstraints covering squares)) a \<noteq> [])
     (voronoiPolygons_t (snd (applyConstraints covering squares))) \<and>
   voronoiPolygons_t (snd (applyConstraints covering squares)) = [Some 5]"
  using applyConstraints_no_empty_cells[of covering squares
      "snd (applyConstraints covering squares)"]
  by (simp add: applyConstraints_squares list_all_iff)


subsection \<open>What a degenerate clip does to a cell\<close>








lemma far_squares_facts [simp]:
  "voronoiPolygons_t far_squares = [Some 2]" "outer_t far_squares = 3" "inner_t far_squares = []"
  "voronoiPolygons_t closed_far_squares = [Some 2]" "inner_t closed_far_squares = []"
  "fresh closed_far_squares = 5"
  "length (arrays closed_far_squares 2) = 5" "length (arrays closed_far_squares 3) = 5"
  by (simp_all add: closed_far_squares_def far_squares_def squares_def)





lemma coincident_facts [simp]:
  "voronoiPolygons_t coincident = [None, Some 2]" "outer_t coincident = 3"
  by (simp_all add: coincident_def)





subsection \<open>Dragging a marker (module variant)\<close>

lemma findIndex_Some:
  "findIndex P xs = Some i \<longleftrightarrow> i < length xs \<and> P (xs ! i) \<and> (\<forall>j<i. \<not> P (xs ! j))"
proof (induction xs arbitrary: i)
  case Nil
  then show ?case by simp
next
  case (Cons x xs)
  show ?case
  proof (cases "P x")
    case True
    then show ?thesis by (cases i) auto
  next
    case False
    show ?thesis
    proof (cases i)
      case 0
      then show ?thesis using False by auto
    next
      case (Suc k)
      have "(\<forall>j<Suc k. \<not> P ((x # xs) ! j)) \<longleftrightarrow> (\<forall>j<k. \<not> P (xs ! j))"
        using False by (auto simp: less_Suc_eq_0_disj)
      then show ?thesis using False Suc Cons.IH[of k] by auto
    qed
  qed
qed

lemma findIndex_None: "findIndex P xs = None \<longleftrightarrow> (\<forall>x \<in> set xs. \<not> P x)"
  by (induction xs) auto

text \<open>
  Claim C8. With \<^verbatim>\<open>pointsEqual\<close> as the spec describes it and a tolerance
  \<open>epsilon > 0\<close>: two points are equal exactly when both coordinate differences are
  below \<open>epsilon\<close>; every point equals itself and the relation is symmetric; and the
  comparison is not exact, since a point equals the point half a tolerance further.
  The \<^verbatim>\<open>dragend\<close> handler, which looks the dragged station up with it, finds the
  first station both of whose coordinates are within \<open>epsilon\<close> of the position saved
  at \<^verbatim>\<open>dragstart\<close>, and fails exactly when no station is within \<open>epsilon\<close> of it.
\<close>

theorem pointsEqual_tolerance:
  assumes "0 < epsilon"
      and "g_pointsEqual G = (\<lambda>p q. pointsEqual epsilon (lat p, lng p) q)"
  shows "(pointsEqual epsilon a b \<longleftrightarrow>
            \<bar>fst a - fst b\<bar> < epsilon \<and> \<bar>snd a - snd b\<bar> < epsilon) \<and>
         pointsEqual epsilon a a \<and>
         (pointsEqual epsilon a b \<longleftrightarrow> pointsEqual epsilon b a) \<and>
         pointsEqual epsilon a (fst a + epsilon / 2, snd a) \<and>
         (findIndex (\<lambda>p. g_pointsEqual G p dragStart) (stations s) = Some i \<longleftrightarrow>
            i < length (stations s) \<and>
            \<bar>lat (stations s ! i) - fst dragStart\<bar> < epsilon \<and>
            \<bar>lng (stations s ! i) - snd dragStart\<bar> < epsilon \<and>
            (\<forall>j<i. \<not> (\<bar>lat (stations s ! j) - fst dragStart\<bar> < epsilon \<and>
                        \<bar>lng (stations s ! j) - snd dragStart\<bar> < epsilon))) \<and>
         (dragend G dragStart target s = Inl TypeError \<longleftrightarrow>
            (\<forall>p \<in> set (stations s). \<not> (\<bar>lat p - fst dragStart\<bar> < epsilon \<and>
                                        \<bar>lng p - snd dragStart\<bar> < epsilon)))"
proof -
  have 1: "pointsEqual epsilon a b \<longleftrightarrow>
            \<bar>fst a - fst b\<bar> < epsilon \<and> \<bar>snd a - snd b\<bar> < epsilon"
    by (simp add: pointsEqual_def)
  have 2: "pointsEqual epsilon a a" using assms(1) by (simp add: pointsEqual_def)
  have 3: "pointsEqual epsilon a b \<longleftrightarrow> pointsEqual epsilon b a"
    by (simp add: pointsEqual_def abs_minus_commute)
  have 4: "pointsEqual epsilon a (fst a + epsilon / 2, snd a)"
    using assms(1) by (simp add: pointsEqual_def)
  have 5: "findIndex (\<lambda>p. g_pointsEqual G p dragStart) (stations s) = Some i \<longleftrightarrow>
            i < length (stations s) \<and>
            \<bar>lat (stations s ! i) - fst dragStart\<bar> < epsilon \<and>
            \<bar>lng (stations s ! i) - snd dragStart\<bar> < epsilon \<and>
            (\<forall>j<i. \<not> (\<bar>lat (stations s ! j) - fst dragStart\<bar> < epsilon \<and>
                        \<bar>lng (stations s ! j) - snd dragStart\<bar> < epsilon))"
    by (simp add: findIndex_Some assms(2) pointsEqual_def)
  have "findIndex (\<lambda>p. g_pointsEqual G p dragStart) (stations s) = None \<longleftrightarrow>
          (\<forall>p \<in> set (stations s). \<not> (\<bar>lat p - fst dragStart\<bar> < epsilon \<and>
                                      \<bar>lng p - snd dragStart\<bar> < epsilon))"
    by (simp add: findIndex_None assms(2) pointsEqual_def)
  moreover have "dragend G dragStart target s = Inl TypeError \<longleftrightarrow>
          findIndex (\<lambda>p. g_pointsEqual G p dragStart) (stations s) = None"
    by (simp add: dragend_def Let_def split: option.split)
  ultimately have 6: "dragend G dragStart target s = Inl TypeError \<longleftrightarrow>
            (\<forall>p \<in> set (stations s). \<not> (\<bar>lat p - fst dragStart\<bar> < epsilon \<and>
                                        \<bar>lng p - snd dragStart\<bar> < epsilon))"
    by simp
  show ?thesis by (intro conjI 1 2 3 4 5 6)
qed

text \<open>
  In the town, with a tolerance of a billionth: a position that differs from
  station A by a millionth of a millionth in latitude finds station A.
\<close>

theorem pointsEqual_tolerance_witness:
  "pointsEqual (1 / 10 ^ 9) (1, 1) (1 + (1 / 10 ^ 9) / 2, 1) \<and>
   findIndex (\<lambda>p. g_pointsEqual rect_gutils p (1 + 1 / 10 ^ 12, 1)) (stations town) = Some 0"
proof -
  have e: "(0::real) < 1 / 10 ^ 9" by simp
  have g: "g_pointsEqual rect_gutils = (\<lambda>p q. pointsEqual (1 / 10 ^ 9) (lat p, lng p) q)"
    by simp
  have t: "stations town ! 0 = \<lparr>name = ''A'', icon = ''blue'', lat = 1, lng = 1\<rparr>"
    "0 < length (stations town)"
    by (simp_all add: town_def createStation_def)
  show ?thesis
    using pointsEqual_tolerance[OF e g, of "(1, 1)" "(1, 1)" "(1 + 1 / 10 ^ 12, 1)" town 0
        "(6, 6)"] t
    by simp
qed

text \<open>
  Claim C9, as amended. The \<^verbatim>\<open>dragend\<close> handler does not report a lookup that is
  not unique. When no station equals the position saved at \<^verbatim>\<open>dragstart\<close>, the
  assignment to \<^verbatim>\<open>stations[-1].lat\<close> raises a TypeError, nothing has been changed and
  \<^verbatim>\<open>update\<close> does not run. When stations equal it, the first of them in the list is
  moved, whichever marker was dragged, every other station is left as it was, and
  \<^verbatim>\<open>update\<close> runs as after any move.
\<close>

theorem dragend_unreported:
  "((\<forall>p \<in> set (stations s). \<not> g_pointsEqual G p dragStart) \<longrightarrow>
      dragend G dragStart target s = Inl TypeError) \<and>
   (\<forall>i. i < length (stations s) \<and> g_pointsEqual G (stations s ! i) dragStart \<and>
        (\<forall>j<i. \<not> g_pointsEqual G (stations s ! j) dragStart) \<longrightarrow>
      dragend G dragStart target s =
        Inr (update G (s\<lparr>stations := (stations s)[i :=
          (stations s ! i)\<lparr>lat := fst target, lng := snd target,
             icon := (if icon (stations s ! i) \<noteq> ''red'' then ''orange'' else ''red'')\<rparr>]\<rparr>)) \<and>
      (\<forall>k. k \<noteq> i \<longrightarrow>
         (stations s)[i :=
          (stations s ! i)\<lparr>lat := fst target, lng := snd target,
             icon := (if icon (stations s ! i) \<noteq> ''red'' then ''orange'' else ''red'')\<rparr>] ! k =
         stations s ! k))"
proof -
  have a: "(\<forall>p \<in> set (stations s). \<not> g_pointsEqual G p dragStart) \<longrightarrow>
      dragend G dragStart target s = Inl TypeError"
  proof
    assume "\<forall>p \<in> set (stations s). \<not> g_pointsEqual G p dragStart"
    then have "findIndex (\<lambda>p. g_pointsEqual G p dragStart) (stations s) = None"
      by (simp add: findIndex_None)
    then show "dragend G dragStart target s = Inl TypeError"
      by (simp add: dragend_def)
  qed
  have b: "dragend G dragStart target s =
        Inr (update G (s\<lparr>stations := (stations s)[i :=
          (stations s ! i)\<lparr>lat := fst target, lng := snd target,
             icon := (if icon (stations s ! i) \<noteq> ''red'' then ''orange'' else ''red'')\<rparr>]\<rparr>))"
    if "i < length (stations s)" "g_pointsEqual G (stations s ! i) dragStart"
      "\<forall>j<i. \<not> g_pointsEqual G (stations s ! j) dragStart" for i
  proof -
    have "findIndex (\<lambda>p. g_pointsEqual G p dragStart) (stations s) = Some i"
      using that by (simp add: findIndex_Some)
    then show ?thesis by (simp add: dragend_def Let_def)
  qed
  have c: "\<forall>i. i < length (stations s) \<and> g_pointsEqual G (stations s ! i) dragStart \<and>
        (\<forall>j<i. \<not> g_pointsEqual G (stations s ! j) dragStart) \<longrightarrow>
      dragend G dragStart target s =
        Inr (update G (s\<lparr>stations := (stations s)[i :=
          (stations s ! i)\<lparr>lat := fst target, lng := snd target,
             icon := (if icon (stations s ! i) \<noteq> ''red'' then ''orange'' else ''red'')\<rparr>]\<rparr>)) \<and>
      (\<forall>k. k \<noteq> i \<longrightarrow>
         (stations s)[i :=
          (stations s ! i)\<lparr>lat := fst target, lng := snd target,
             icon := (if icon (stations s ! i) \<noteq> ''red'' then ''orange'' else ''red'')\<rparr>] ! k =
         stations s ! k)"
  proof (intro allI impI conjI)
    fix i
    assume h: "i < length (stations s) \<and> g_pointsEqual G (stations s ! i) dragStart \<and>
        (\<forall>j<i. \<not> g_pointsEqual G (stations s ! j) dragStart)"
    show "dragend G dragStart target s =
        Inr (update G (s\<lparr>stations := (stations s)[i :=
          (stations s ! i)\<lparr>lat := fst target, lng := snd target,
             icon := (if icon (stations s ! i) \<noteq> ''red'' then ''orange'' else ''red'')\<rparr>]\<rparr>))"
      by (rule b[OF h[THEN conjunct1] h[THEN conjunct2, THEN conjunct1]
            h[THEN conjunct2, THEN conjunct2]])
  next
    fix i k :: nat
    assume "k \<noteq> i"
    then have "i \<noteq> k" by simp
    then show "(stations s)[i :=
          (stations s ! i)\<lparr>lat := fst target, lng := snd target,
             icon := (if icon (stations s ! i) \<noteq> ''red'' then ''orange'' else ''red'')\<rparr>] ! k =
         stations s ! k"
      by (rule nth_list_update_neq)
  qed
  show ?thesis by (rule conjI[OF a c])
qed

lemma twins_stations:
  "stations twins = [\<lparr>name = ''A'', icon = ''blue'', lat = 1, lng = 1\<rparr>,
                     \<lparr>name = ''B'', icon = ''blue'', lat = 1, lng = 1 + 1 / 10 ^ 10\<rparr>]"
  by (simp add: twins_def createStation_def)

text \<open>
  In the town no station is at (7, 7): the handler ends in a TypeError. With the twins,
  the marker of station B is dragged: station A equals the saved position as well, and
  comes first; it is station A that is moved.
\<close>

theorem dragend_unreported_witness:
  "dragend rect_gutils (7, 7) (6, 6) town = Inl TypeError \<and>
   dragend rect_gutils (1, 1 + 1 / 10 ^ 10) (20, 20) twins =
     Inr (update rect_gutils (twins\<lparr>stations :=
        [\<lparr>name = ''A'', icon = ''orange'', lat = 20, lng = 20\<rparr>,
         \<lparr>name = ''B'', icon = ''blue'', lat = 1, lng = 1 + 1 / 10 ^ 10\<rparr>]\<rparr>))"
proof -
  have 1: "\<forall>p \<in> set (stations town). \<not> g_pointsEqual rect_gutils p (7, 7)"
    by (simp add: town_def createStation_def pointsEqual_def)
  have 2: "0 < length (stations twins) \<and>
           g_pointsEqual rect_gutils (stations twins ! 0) (1, 1 + 1 / 10 ^ 10) \<and>
           (\<forall>j<0. \<not> g_pointsEqual rect_gutils (stations twins ! j) (1, 1 + 1 / 10 ^ 10))"
    by (simp add: twins_stations pointsEqual_def)
  have 3: "dragend rect_gutils (7, 7) (6, 6) town = Inl TypeError"
    by (rule dragend_unreported[of town rect_gutils "(7, 7)" "(6, 6)",
          THEN conjunct1, THEN mp, OF 1])
  have 4: "dragend rect_gutils (1, 1 + 1 / 10 ^ 10) (20, 20) twins =
     Inr (update rect_gutils (twins\<lparr>stations := (stations twins)[0 :=
          (stations twins ! 0)\<lparr>lat := fst (20 :: real, 20 :: real),
             lng := snd (20 :: real, 20 :: real),
             icon := (if icon (stations twins ! 0) \<noteq> ''red'' then ''orange'' else ''red'')\<rparr>]\<rparr>))"
    by (rule dragend_unreported[of twins rect_gutils "(1, 1 + 1 / 10 ^ 10)" "(20, 20)",
          THEN conjunct2, THEN spec[where x = "0::nat"], THEN mp, OF 2, THEN conjunct1])
  show ?thesis using 3 4 by (simp add: twins_stations)
qed

text \<open>
  Claim C9 as stated fails. With the twins, the marker of station B is dragged out of
  the region. The lookup is not unique; the handler returns normally, and afterwards
  station B is where it was and station A is gone.
\<close>

theorem dragend_moves_first_match:
  "map_sum id stations (dragend rect_gutils (1, 1 + 1 / 10 ^ 10) (20, 20) twins) =
     Inr [\<lparr>name = ''B'', icon = ''blue'', lat = 1, lng = 1 + 1 / 10 ^ 10\<rparr>]"
  by (simp add: dragend_def twins_stations pointsEqual_def update_constrained survivors_def
      twins_def createStation_def rect_pointInPolygon_def)

end
